theory Spec2Isabelle
  imports Main
begin

section \<open>The card editor: data\<close>

text \<open>
  The model follows \<^verbatim>\<open>src/panels/lovelace/editor/card-editor/hui-card-editor.ts\<close>.
  Private members of the class start with an underscore in the source; here they carry
  the prefix \<open>u_\<close> (\<^verbatim>\<open>_config\<close> is \<open>u_config\<close>, \<^verbatim>\<open>_setConfig\<close> is \<open>u_setConfig\<close>).
\<close>

text \<open>
  A card configuration (\<^verbatim>\<open>LovelaceCardConfig\<close>): the \<^verbatim>\<open>type\<close> field, which is
  \<^verbatim>\<open>undefined\<close> (\<open>None\<close>) when the object has no such key, and all the other fields,
  kept abstract.
\<close>

datatype 'v config = Config (ctype: "string option") (cfields: 'v)

text \<open>
  The values the member \<^verbatim>\<open>_error\<close> takes: \<^verbatim>\<open>undefined\<close>, a string (lines 87 and
  112 store \<^verbatim>\<open>err.message\<close>), or a caught \<^verbatim>\<open>Error\<close> object itself (line 280 stores
  \<^verbatim>\<open>err\<close>), recorded with its message.
\<close>

datatype errval = Undefined | Message string | ErrorObject string

text \<open>
  A form editor instance (\<^verbatim>\<open>LovelaceCardEditor\<close>): a name that tells instances
  apart, and its \<^verbatim>\<open>setConfig\<close>, which either returns (\<open>None\<close>) or throws an error
  with a message.
\<close>

datatype 'v editor =
  Editor (ed_name: string) (ed_setConfig: "'v config option \<Rightarrow> string option")

text \<open>The details of the two events the element fires.\<close>

datatype 'v event =
    ConfigChanged (ev_config: "'v config option") (ev_error: errval) (ev_guiModeAvailable: bool)
  | GUImodeChanged (ev_guiMode: bool) (ev_guiModeAvailable: bool)

text \<open>
  The members of \<^verbatim>\<open>HuiCardEditor\<close> that the editing logic reads and writes, and two
  records of what the element has done: the list of events fired so far, oldest first,
  and the number of times \<^verbatim>\<open>_updateConfigElement\<close> has been called.
\<close>

record 'v state =
  u_yaml :: "string option"
  u_config :: "'v config option"
  u_configElement :: "'v editor option"
  u_configElType :: "string option"
  u_GUImode :: bool
  u_error :: errval
  u_warning :: "string option"
  u_loading :: bool
  fired :: "'v event list"
  reconciliations :: nat

text \<open>The element as constructed: the member initialisers of lines 57 to 73.\<close>

definition initial :: "'v state" where
  "initial = \<lparr>u_yaml = None, u_config = None, u_configElement = None,
     u_configElType = None, u_GUImode = True, u_error = Undefined, u_warning = None,
     u_loading = False, fired = [], reconciliations = 0\<rparr>"

text \<open>
  What the two awaited calls of \<^verbatim>\<open>_updateConfigElement\<close> deliver when they settle.
  \<^verbatim>\<open>getCardElementClass\<close> (line 248) rejects, or resolves to nothing, to a class
  without \<^verbatim>\<open>getConfigElement\<close>, or to a class with it; \<^verbatim>\<open>getConfigElement\<close>
  (line 253) rejects or resolves to an editor instance.
\<close>

datatype class_result =
  ClassRejected string | ClassUndefined | ClassWithoutEditor | ClassWithEditor

datatype 'v element_result = ElementRejected string | Element "'v editor"

text \<open>
  \<^verbatim>\<open>_updateConfigElement\<close> is an \<^verbatim>\<open>async\<close> function: it runs synchronously up to
  its first \<^verbatim>\<open>await\<close> and hands control back to its caller; the rest runs later, when
  the awaited promise has settled. What a call leaves behind is either nothing or the
  suspended rest, with the local \<^verbatim>\<open>cardType\<close> it has captured.
\<close>

datatype pending = Settled | AwaitClass string | AwaitElement string

section \<open>The card editor: operations\<close>

text \<open>Line 77: the getter \<^verbatim>\<open>yaml\<close>.\<close>

definition yaml :: "'v state \<Rightarrow> string" where
  "yaml st = (case u_yaml st of None \<Rightarrow> [] | Some y \<Rightarrow> if y = [] then [] else y)"

text \<open>Line 92: the getter \<^verbatim>\<open>value\<close>.\<close>

definition "value" :: "'v state \<Rightarrow> 'v config option" where
  "value st = u_config st"

text \<open>Lines 122 and 126.\<close>

definition hasWarning :: "'v state \<Rightarrow> bool" where
  "hasWarning st = (u_warning st \<noteq> None)"

definition hasError :: "'v state \<Rightarrow> bool" where
  "hasError st = (u_error st \<noteq> Undefined)"

text \<open>\<^verbatim>\<open>fireEvent\<close> dispatches an event; the model appends it to the list.\<close>

definition fireEvent :: "'v event \<Rightarrow> 'v state \<Rightarrow> 'v state" where
  "fireEvent ev st = st\<lparr>fired := fired st @ [ev]\<rparr>"

text \<open>Lines 134 to 140: the setter \<^verbatim>\<open>GUImode\<close>; line 142: \<^verbatim>\<open>toggleMode\<close>.\<close>

definition set_GUImode :: "bool \<Rightarrow> 'v state \<Rightarrow> 'v state" where
  "set_GUImode guiMode st =
     (let st1 = st\<lparr>u_GUImode := guiMode\<rparr>
      in fireEvent (GUImodeChanged guiMode (\<not> (hasWarning st1 \<or> hasError st1))) st1)"

definition toggleMode :: "'v state \<Rightarrow> 'v state" where
  "toggleMode st = set_GUImode (\<not> u_GUImode st) st"

text \<open>JavaScript's \<^verbatim>\<open>s.startsWith(p)\<close>, and the truth value of \<^verbatim>\<open>!x\<close>.\<close>

definition startsWith :: "string \<Rightarrow> string \<Rightarrow> bool" where
  "startsWith p s = (take (length p) s = p)"

fun not_err :: "errval \<Rightarrow> bool" where
  "not_err Undefined = True"
| "not_err (Message m) = (m = [])"
| "not_err (ErrorObject m) = False"

definition not_type :: "string option \<Rightarrow> bool" where
  "not_type t = (t = None \<or> t = Some [])"

text \<open>
  Lines 276 to 282: the \<^verbatim>\<open>catch\<close> clause of \<^verbatim>\<open>_updateConfigElement\<close>, applied to a
  thrown error with message \<open>msg\<close>. Lines 283 to 285: its \<^verbatim>\<open>finally\<close> clause.
\<close>

definition catch_clause :: "string \<Rightarrow> 'v state \<Rightarrow> 'v state" where
  "catch_clause msg st =
     set_GUImode False
       (if startsWith ''WARNING:'' msg then st\<lparr>u_warning := Some (drop 8 msg)\<rparr>
        else st\<lparr>u_error := ErrorObject msg\<rparr>)"

definition finally_clause :: "'v state \<Rightarrow> 'v state" where
  "finally_clause st = st\<lparr>u_loading := False\<rparr>"

text \<open>
  The message of the \<^verbatim>\<open>TypeError\<close> that calling \<^verbatim>\<open>setConfig\<close> on \<^verbatim>\<open>undefined\<close>
  throws. Its wording is the JavaScript engine's.
\<close>

definition undefined_setConfig_message :: string where
  "undefined_setConfig_message =
     ''Cannot read property '' @ [CHR 0x27] @ ''setConfig'' @ [CHR 0x27] @ '' of undefined''"

text \<open>
  Lines 270 to 275, then the way out through \<^verbatim>\<open>catch\<close> and \<^verbatim>\<open>finally\<close>: the
  current configuration is handed to the mounted editor; whatever this throws is thrown
  again with the prefix \<^verbatim>\<open>WARNING: \<close>.
\<close>

definition forward_config :: "'v state \<Rightarrow> 'v state" where
  "forward_config st =
     finally_clause
       (case u_configElement st of
          None \<Rightarrow> catch_clause (''WARNING: '' @ undefined_setConfig_message) st
        | Some el \<Rightarrow>
            (case ed_setConfig el (value st) of
               None \<Rightarrow> st
             | Some m \<Rightarrow> catch_clause (''WARNING: '' @ m) st))"

text \<open>
  Lines 231 to 248: \<^verbatim>\<open>_updateConfigElement\<close> from its start to its first
  \<^verbatim>\<open>await\<close>, or to its end when it does not reach one. Every call is counted.
\<close>

definition u_updateConfigElement :: "'v state \<Rightarrow> 'v state \<times> pending" where
  "u_updateConfigElement st =
     (let st0 = st\<lparr>reconciliations := Suc (reconciliations st)\<rparr>
      in case value st0 of
           None \<Rightarrow> (st0, Settled)
         | Some c \<Rightarrow>
             (let cardType = ctype c;
                  st1 = st0\<lparr>u_error := Undefined, u_warning := None\<rparr>
              in if u_configElType st1 \<noteq> cardType then
                   (if not_type cardType
                    then (finally_clause (catch_clause ''No card type defined'' st1), Settled)
                    else (st1, AwaitClass (the cardType)))
                 else (forward_config st1, Settled)))"

text \<open>
  Lines 248 to 257: the function resumed after \<^verbatim>\<open>await getCardElementClass(cardType)\<close>,
  up to the next \<^verbatim>\<open>await\<close> or to its end.
\<close>

definition resume_class :: "string \<Rightarrow> class_result \<Rightarrow> 'v state \<Rightarrow> 'v state \<times> pending" where
  "resume_class cardType r st =
     (case r of
        ClassRejected m \<Rightarrow> (finally_clause (catch_clause m st), Settled)
      | ClassWithEditor \<Rightarrow> (st\<lparr>u_loading := True\<rparr>, AwaitElement cardType)
      | _ \<Rightarrow>
          (finally_clause
             (catch_clause (''WARNING: No visual editor available for: '' @ cardType)
                (st\<lparr>u_loading := True\<rparr>)),
           Settled))"

text \<open>
  Lines 253 to 286: the function resumed after \<^verbatim>\<open>await elClass.getConfigElement()\<close>.
  Lines 263 to 267 (the \<^verbatim>\<open>hass\<close> and \<^verbatim>\<open>lovelace\<close> references and the event
  listener given to the new editor) change no member of the model.
\<close>

definition resume_element :: "string \<Rightarrow> 'v element_result \<Rightarrow> 'v state \<Rightarrow> 'v state" where
  "resume_element cardType r st =
     (case r of
        ElementRejected m \<Rightarrow> finally_clause (catch_clause m st)
      | Element el \<Rightarrow>
          forward_config (st\<lparr>u_configElement := Some el, u_configElType := Some cardType\<rparr>))"

text \<open>
  Lines 106 to 120: \<^verbatim>\<open>_setConfig\<close>. The call of line 109 is not awaited, and a call
  of an \<^verbatim>\<open>async\<close> function never throws (a failure rejects the promise it returns,
  which is dropped here): line 110 always follows, and line 112 is never reached.
\<close>

definition u_setConfig :: "'v state \<Rightarrow> 'v state \<times> pending" where
  "u_setConfig st =
     (let (st1, p) =
            (if not_err (u_error st)
             then (let (st2, p2) = u_updateConfigElement st
                   in (st2\<lparr>u_error := Undefined\<rparr>, p2))
             else (st, Settled))
      in (fireEvent
            (ConfigChanged (value st1) (u_error st1) (\<not> (hasWarning st1 \<or> hasError st1))) st1,
          p))"

text \<open>
  Lines 81 to 90: the setter \<^verbatim>\<open>yaml\<close>. \<^verbatim>\<open>safeLoad\<close> belongs to the library js-yaml
  and is a parameter: it throws an exception with a message (\<open>Inl\<close>) or returns the
  parsed value, \<^verbatim>\<open>undefined\<close> for an empty document.
\<close>

definition set_yaml ::
  "(string \<Rightarrow> string + 'v config option) \<Rightarrow> string \<Rightarrow> 'v state \<Rightarrow> 'v state \<times> pending"
where
  "set_yaml safeLoad text st =
     (let st1 = st\<lparr>u_yaml := Some text\<rparr>
      in u_setConfig
           (case safeLoad (yaml st1) of
              Inr c \<Rightarrow> st1\<lparr>u_config := c, u_error := Undefined\<rparr>
            | Inl m \<Rightarrow> st1\<lparr>u_error := Message m\<rparr>))"

text \<open>
  Modelled from the spec: \<^verbatim>\<open>deepEqual\<close> (\<^verbatim>\<open>common/util/deep-equal\<close>, a module that is
  not among the sources) holds of two values that are deeply equal, whatever the order
  of their keys: equality of the modelled values.
\<close>

definition deepEqual :: "'v config option \<Rightarrow> 'v config option \<Rightarrow> bool" where
  "deepEqual a b = (a = b)"

text \<open>
  How a call of the setter \<^verbatim>\<open>value\<close> ends: it returns, perhaps with a suspended
  \<^verbatim>\<open>_updateConfigElement\<close> left behind, or it throws an exception to its caller.
\<close>

datatype outcome = Returns pending | Throws string

text \<open>
  Lines 96 to 104: the setter \<^verbatim>\<open>value\<close>. \<^verbatim>\<open>safeDump\<close> belongs to js-yaml and is a
  parameter: it returns the text (\<open>Inr\<close>) or throws an exception with a message
  (\<open>Inl\<close>), as js-yaml does for \<^verbatim>\<open>undefined\<close> and for a field it cannot represent.
  Line 101 stands in no \<^verbatim>\<open>try\<close>: the exception leaves the setter after line 100 has
  stored the configuration, and lines 101 to 103 assign nothing and fire nothing.
\<close>

definition set_value ::
  "('v config option \<Rightarrow> string + string) \<Rightarrow> 'v config option \<Rightarrow> 'v state \<Rightarrow>
   'v state \<times> outcome"
where
  "set_value safeDump config st =
     (if u_config st \<noteq> None \<and> deepEqual config (u_config st) then (st, Returns Settled)
      else
        (let st1 = st\<lparr>u_config := config\<rparr>
         in case safeDump config of
              Inl m \<Rightarrow> (st1, Throws m)
            | Inr y \<Rightarrow>
                (case u_setConfig (st1\<lparr>u_yaml := Some y, u_error := Undefined\<rparr>) of
                   (st2, p) \<Rightarrow> (st2, Returns p))))"

text \<open>The events a call has fired: those of the state after it that were not there before.\<close>

definition emitted :: "'v state \<Rightarrow> 'v state \<Rightarrow> 'v event list" where
  "emitted st st' = drop (length (fired st)) (fired st')"

fun config_changed :: "'v event \<Rightarrow> bool" where
  "config_changed (ConfigChanged c e g) = True"
| "config_changed (GUImodeChanged m g) = False"

fun error_is_string :: "'v event \<Rightarrow> bool" where
  "error_is_string (ConfigChanged c Undefined g) = True"
| "error_is_string (ConfigChanged c (Message m) g) = True"
| "error_is_string (ConfigChanged c (ErrorObject m) g) = False"
| "error_is_string (GUImodeChanged m g) = True"

section \<open>An editing session\<close>

text \<open>
  JavaScript runs one handler at a time, each to its end. What happens to the element
  during a session is a sequence of such steps: the host or the text editor assigns
  \<^verbatim>\<open>yaml\<close>, the host or the mounted form editor assigns \<^verbatim>\<open>value\<close>, the user
  toggles the mode, or a promise that a suspended \<^verbatim>\<open>_updateConfigElement\<close> awaits
  settles and the function runs on. Suspended calls wait in a list; one of them is
  resumed only if it is there.
\<close>

text \<open>
  An exception that the setter \<^verbatim>\<open>value\<close> throws ends the handler that made the
  assignment; the element stays as the setter left it.
\<close>

datatype 'v action =
    SetText string
  | SetConfig "'v config option"
  | ToggleMode
  | ClassSettles string class_result
  | ElementSettles string "'v element_result"

fun suspend :: "pending \<Rightarrow> pending list \<Rightarrow> pending list" where
  "suspend Settled ps = ps"
| "suspend p ps = ps @ [p]"

fun after_call :: "outcome \<Rightarrow> pending list \<Rightarrow> pending list" where
  "after_call (Returns p) ps = suspend p ps"
| "after_call (Throws m) ps = ps"

fun perform ::
  "(string \<Rightarrow> string + 'v config option) \<Rightarrow> ('v config option \<Rightarrow> string + string) \<Rightarrow>
   'v action \<Rightarrow> 'v state \<times> pending list \<Rightarrow> 'v state \<times> pending list"
where
  "perform safeLoad safeDump (SetText text) (st, ps) =
     (case set_yaml safeLoad text st of (st', p) \<Rightarrow> (st', suspend p ps))"
| "perform safeLoad safeDump (SetConfig config) (st, ps) =
     (case set_value safeDump config st of (st', r) \<Rightarrow> (st', after_call r ps))"
| "perform safeLoad safeDump ToggleMode (st, ps) = (toggleMode st, ps)"
| "perform safeLoad safeDump (ClassSettles cardType r) (st, ps) =
     (if AwaitClass cardType \<in> set ps
      then (case resume_class cardType r st of
              (st', p) \<Rightarrow> (st', suspend p (remove1 (AwaitClass cardType) ps)))
      else (st, ps))"
| "perform safeLoad safeDump (ElementSettles cardType r) (st, ps) =
     (if AwaitElement cardType \<in> set ps
      then (resume_element cardType r st, remove1 (AwaitElement cardType) ps)
      else (st, ps))"

definition session ::
  "(string \<Rightarrow> string + 'v config option) \<Rightarrow> ('v config option \<Rightarrow> string + string) \<Rightarrow>
   'v action list \<Rightarrow> 'v state \<times> pending list"
where
  "session safeLoad safeDump acts =
     foldl (\<lambda>s a. perform safeLoad safeDump a s) (initial, []) acts"

section \<open>Example cards, editors and a small codec\<close>

text \<open>
  Cards whose other fields are one string, the content; an editor that accepts every
  configuration; and a parser and a printer for such cards, standing for js-yaml in
  the examples. The parser fails on an opening bracket, as js-yaml does on an unclosed
  flow sequence; the printer throws on \<^verbatim>\<open>undefined\<close>, as \<^verbatim>\<open>safeDump\<close> of js-yaml
  does.
\<close>

definition markdown_card :: "string config" where
  "markdown_card = Config (Some ''markdown'') ''hi''"

definition glance_card :: "string config" where
  "glance_card = Config (Some ''glance'') ''hi''"

definition unknown_card :: "string config" where
  "unknown_card = Config (Some ''unknown-type'') []"

definition untyped_card :: "string config" where
  "untyped_card = Config None ''hi''"

definition markdown_editor :: "string editor" where
  "markdown_editor = Editor ''hui-markdown-card-editor'' (\<lambda>c. None)"

definition glance_editor :: "string editor" where
  "glance_editor = Editor ''hui-glance-card-editor'' (\<lambda>c. None)"

definition dump_example :: "string config option \<Rightarrow> string + string" where
  "dump_example config =
     (case config of
        None \<Rightarrow> Inl ''unacceptable kind of an object to dump [object Undefined]''
      | Some c \<Rightarrow>
          Inr ((case ctype c of None \<Rightarrow> [] | Some t \<Rightarrow> ''type: '' @ t @ [CHR 0x0A])
               @ ''content: '' @ cfields c))"

definition load_example :: "string \<Rightarrow> string + string config option" where
  "load_example text =
     (if CHR ''['' \<in> set text
      then Inl ''unexpected end of the stream within a flow collection''
      else if text = [] then Inr None
      else if startsWith ''type: '' text then Inr (Some (Config (Some (drop 6 text)) []))
      else Inr (Some (Config None text)))"

definition example :: "string action list \<Rightarrow> string state" where
  "example acts = fst (session load_example dump_example acts)"

text \<open>A session in which the form editor for a markdown card has been mounted.\<close>

definition mount_markdown :: "string action list" where
  "mount_markdown =
     [SetConfig (Some markdown_card), ClassSettles ''markdown'' ClassWithEditor,
      ElementSettles ''markdown'' (Element markdown_editor)]"

text \<open>
  Cards whose content may be \<^verbatim>\<open>undefined\<close>, a value that \<^verbatim>\<open>safeDump\<close> of js-yaml
  refuses in a field as it does at the top: a markdown card with such a content, and
  the printer for these cards.
\<close>

definition unprintable_card :: "string option config" where
  "unprintable_card = Config (Some ''markdown'') None"

definition dump_optional :: "string option config option \<Rightarrow> string + string" where
  "dump_optional config =
     (case config of
        None \<Rightarrow> Inl ''unacceptable kind of an object to dump [object Undefined]''
      | Some c \<Rightarrow>
          (case cfields c of
             None \<Rightarrow> Inl ''unacceptable kind of an object to dump [object Undefined]''
           | Some v \<Rightarrow>
               Inr ((case ctype c of None \<Rightarrow> [] | Some t \<Rightarrow> ''type: '' @ t @ [CHR 0x0A])
                    @ ''content: '' @ v)))"

text \<open>
  A session in which a second assignment overtakes the editor lookup of the first: the
  lookup for the glance card has finished and mounted its editor while the class lookup
  for the markdown card, assigned earlier, has only just resolved.
\<close>

definition stale_race :: "string action list" where
  "stale_race =
     [SetConfig (Some markdown_card), SetConfig (Some glance_card),
      ClassSettles ''glance'' ClassWithEditor, ElementSettles ''glance'' (Element glance_editor),
      ClassSettles ''markdown'' ClassWithEditor]"

text \<open>The change notification that describes a state: the detail that line 115 builds.\<close>

definition notification_of :: "'v state \<Rightarrow> 'v event" where
  "notification_of st =
     ConfigChanged (value st) (u_error st) (\<not> hasWarning st \<and> \<not> hasError st)"

section \<open>Events fired by each operation\<close>

lemmas ops = set_GUImode_def fireEvent_def hasWarning_def hasError_def catch_clause_def
  finally_clause_def forward_config_def u_updateConfigElement_def resume_class_def
  resume_element_def u_setConfig_def set_yaml_def set_value_def deepEqual_def value_def
  yaml_def toggleMode_def startsWith_def not_type_def emitted_def

lemma fired_set_GUImode:
  "fired (set_GUImode g st) = fired st @ [GUImodeChanged g (\<not> hasWarning st \<and> \<not> hasError st)]"
  by (simp add: set_GUImode_def fireEvent_def hasWarning_def hasError_def Let_def)

lemma fired_catch_clause:
  "fired (catch_clause m st) = fired st @ [GUImodeChanged False False]"
  by (simp add: catch_clause_def set_GUImode_def fireEvent_def hasWarning_def hasError_def Let_def)

lemma fired_finally_clause: "fired (finally_clause st) = fired st"
  by (simp add: finally_clause_def)

lemma fired_forward_config:
  "fired (forward_config st) = fired st
   \<or> fired (forward_config st) = fired st @ [GUImodeChanged False False]"
  by (simp add: forward_config_def fired_finally_clause fired_catch_clause split: option.splits)

lemma forward_config_keeps:
  "u_configElement (forward_config st) = u_configElement st"
  "u_configElType (forward_config st) = u_configElType st"
  "u_config (forward_config st) = u_config st"
  by (simp_all add: forward_config_def finally_clause_def catch_clause_def set_GUImode_def
      fireEvent_def Let_def split: option.splits)

lemma fired_updateConfigElement:
  "fired (fst (u_updateConfigElement st)) = fired st
   \<or> fired (fst (u_updateConfigElement st)) = fired st @ [GUImodeChanged False False]"
proof (cases "value st")
  case None
  then show ?thesis by (simp add: u_updateConfigElement_def value_def Let_def)
next
  case (Some c)
  from fired_forward_config
    [of "st\<lparr>reconciliations := Suc (reconciliations st), u_error := Undefined,
           u_warning := None\<rparr>"] Some
  show ?thesis
    by (auto simp add: u_updateConfigElement_def value_def Let_def fired_finally_clause
        fired_catch_clause)
qed

lemma fired_resume_class:
  "fired (fst (resume_class t r st)) = fired st
   \<or> fired (fst (resume_class t r st)) = fired st @ [GUImodeChanged False False]"
  by (simp add: resume_class_def fired_finally_clause fired_catch_clause
      split: class_result.splits)

lemma fired_resume_element:
  "fired (resume_element t r st) = fired st
   \<or> fired (resume_element t r st) = fired st @ [GUImodeChanged False False]"
proof (cases r)
  case (ElementRejected m)
  then show ?thesis by (simp add: resume_element_def fired_finally_clause fired_catch_clause)
next
  case (Element el)
  with fired_forward_config [of "st\<lparr>u_configElement := Some el, u_configElType := Some t\<rparr>"]
  show ?thesis by (simp add: resume_element_def)
qed

text \<open>
  \<^verbatim>\<open>_setConfig\<close> fires its change notification last, after at most a mode notification,
  and the notification describes the state that \<^verbatim>\<open>_setConfig\<close> leaves.
\<close>

lemma fired_setConfig:
  "\<exists>gs. fired (fst (u_setConfig st)) = fired st @ gs @ [notification_of (fst (u_setConfig st))]
     \<and> filter config_changed gs = []"
proof (cases "not_err (u_error st)")
  case False
  then show ?thesis
    by (simp add: u_setConfig_def notification_of_def fireEvent_def hasWarning_def hasError_def
        value_def)
next
  case True
  obtain st2 p2 where u: "u_updateConfigElement st = (st2, p2)"
    by (cases "u_updateConfigElement st")
  from fired_updateConfigElement [of st] u
  have "fired st2 = fired st @ [] \<or> fired st2 = fired st @ [GUImodeChanged False False]"
    by simp
  then obtain gs where g: "fired st2 = fired st @ gs" "filter config_changed gs = []"
  proof
    assume "fired st2 = fired st @ []"
    then show ?thesis by (rule that) simp
  next
    assume "fired st2 = fired st @ [GUImodeChanged False False]"
    then show ?thesis by (rule that) simp
  qed
  with True u show ?thesis
    by (simp add: u_setConfig_def notification_of_def fireEvent_def hasWarning_def hasError_def
        value_def)
qed

lemma emitted_setConfig:
  assumes "fired st0 = fired st"
  shows "filter config_changed (emitted st0 (fst (u_setConfig st)))
           = [notification_of (fst (u_setConfig st))]"
    and "last (fired (fst (u_setConfig st))) = notification_of (fst (u_setConfig st))"
proof -
  from fired_setConfig [of st] obtain gs where
    g: "fired (fst (u_setConfig st)) = fired st @ gs @ [notification_of (fst (u_setConfig st))]"
    and n: "filter config_changed gs = []" by blast
  show "filter config_changed (emitted st0 (fst (u_setConfig st)))
          = [notification_of (fst (u_setConfig st))]"
    unfolding emitted_def assms by (subst g) (simp add: n notification_of_def)
  show "last (fired (fst (u_setConfig st))) = notification_of (fst (u_setConfig st))"
    by (subst g) simp
qed

lemma setConfig_keeps:
  "u_config (fst (u_setConfig st)) = u_config st"
  "u_yaml (fst (u_setConfig st)) = u_yaml st"
  by (simp_all add: u_setConfig_def u_updateConfigElement_def forward_config_def
      finally_clause_def catch_clause_def set_GUImode_def fireEvent_def value_def Let_def
      split: option.splits prod.splits)

text \<open>The two setters as \<^verbatim>\<open>_setConfig\<close> applied to the members they have assigned.\<close>

lemma set_yaml_unfold:
  "set_yaml safeLoad content st =
     u_setConfig
       (case safeLoad content of
          Inr c \<Rightarrow> st\<lparr>u_yaml := Some content, u_config := c, u_error := Undefined\<rparr>
        | Inl m \<Rightarrow> st\<lparr>u_yaml := Some content, u_error := Message m\<rparr>)"
  by (simp add: set_yaml_def yaml_def Let_def)

lemma set_value_unfold:
  assumes "u_config st = None \<or> \<not> deepEqual config (u_config st)"
    and "safeDump config = Inr y"
  shows "fst (set_value safeDump config st) =
     fst (u_setConfig (st\<lparr>u_config := config, u_yaml := Some y, u_error := Undefined\<rparr>))"
  using assms by (auto simp add: set_value_def Let_def split: prod.splits)

lemma set_value_throws:
  assumes "u_config st = None \<or> \<not> deepEqual config (u_config st)"
    and "safeDump config = Inl m"
  shows "set_value safeDump config st = (st\<lparr>u_config := config\<rparr>, Throws m)"
  using assms by (auto simp add: set_value_def Let_def)

lemma setConfig_reconciles:
  "reconciliations (fst (u_setConfig st)) =
     (if not_err (u_error st) then Suc (reconciliations st) else reconciliations st)"
  by (simp add: u_setConfig_def u_updateConfigElement_def forward_config_def
      finally_clause_def catch_clause_def set_GUImode_def fireEvent_def value_def Let_def
      split: option.splits prod.splits)

section \<open>The flag guiModeAvailable\<close>

text \<open>
  Claim C1, as amended. Both notifications compute the flag as
  \<^verbatim>\<open>!(this.hasWarning || this.hasError)\<close>: the flag of a mode notification and of a
  change notification is true if and only if the element has neither a warning nor an
  error when the notification is fired. Every mode notification is fired by the setter
  \<^verbatim>\<open>GUImode\<close> and every change notification by \<^verbatim>\<open>_setConfig\<close>, as the last thing
  each of them does.
\<close>

theorem guiModeAvailable_iff_no_warning_no_error:
  "last (fired (set_GUImode g st)) =
     GUImodeChanged g (\<not> hasWarning (set_GUImode g st) \<and> \<not> hasError (set_GUImode g st))
   \<and> last (fired (fst (u_setConfig st))) =
     ConfigChanged (value (fst (u_setConfig st))) (u_error (fst (u_setConfig st)))
       (\<not> hasWarning (fst (u_setConfig st)) \<and> \<not> hasError (fst (u_setConfig st)))"
proof
  show "last (fired (set_GUImode g st)) =
     GUImodeChanged g (\<not> hasWarning (set_GUImode g st) \<and> \<not> hasError (set_GUImode g st))"
    by (simp add: set_GUImode_def fireEvent_def hasWarning_def hasError_def Let_def)
  from emitted_setConfig(2) [OF refl, of st]
  show "last (fired (fst (u_setConfig st))) =
     ConfigChanged (value (fst (u_setConfig st))) (u_error (fst (u_setConfig st)))
       (\<not> hasWarning (fst (u_setConfig st)) \<and> \<not> hasError (fst (u_setConfig st)))"
    by (simp add: notification_of_def)
qed

theorem guiModeAvailable_iff_no_warning_no_error_witness:
  "last (fired (set_GUImode True
      (example [SetConfig (Some unknown_card), ClassSettles ''unknown-type'' ClassUndefined])))
     = GUImodeChanged True False
   \<and> last (fired (fst (u_setConfig (initial :: string state))))
     = ConfigChanged None Undefined True"
proof -
  have w: "hasWarning (set_GUImode True
      (example [SetConfig (Some unknown_card), ClassSettles ''unknown-type'' ClassUndefined]))"
    by (simp add: ops example_def session_def initial_def unknown_card_def dump_example_def
        Let_def)
  have i: "value (fst (u_setConfig (initial :: string state))) = None"
    "u_error (fst (u_setConfig (initial :: string state))) = Undefined"
    "\<not> hasWarning (fst (u_setConfig (initial :: string state)))"
    "\<not> hasError (fst (u_setConfig (initial :: string state)))"
    by (simp_all add: ops initial_def Let_def)
  from guiModeAvailable_iff_no_warning_no_error
    [of True "example [SetConfig (Some unknown_card), ClassSettles ''unknown-type'' ClassUndefined]"]
    guiModeAvailable_iff_no_warning_no_error [of True "initial :: string state"] w i
  show ?thesis by simp
qed

text \<open>
  Claim C1 as stated fails. A card of type unknown-type is assigned to a new element and
  the class lookup finds nothing: the element then has a warning and no error, and the
  mode notification that the failed lookup fires carries the flag false.
\<close>

theorem guiModeAvailable_warning_counterexample:
  "hasWarning (example [SetConfig (Some unknown_card), ClassSettles ''unknown-type'' ClassUndefined])
   \<and> \<not> hasError
         (example [SetConfig (Some unknown_card), ClassSettles ''unknown-type'' ClassUndefined])
   \<and> fired (example [SetConfig (Some unknown_card), ClassSettles ''unknown-type'' ClassUndefined])
       = [ConfigChanged (Some unknown_card) Undefined True, GUImodeChanged False False]"
  by (simp add: ops example_def session_def initial_def unknown_card_def dump_example_def
      Let_def)

section \<open>A lookup that finds no form editor\<close>

text \<open>
  Claim C2, at an input where the code departs from it. The editor of a markdown card is
  mounted, a card of type unknown-type is assigned, and the class lookup finds nothing.
  The warning is set and the mode is raw, but line 255 clears only the local variable
  \<^verbatim>\<open>configElement\<close> and the throw of line 256 skips line 259: the member
  \<^verbatim>\<open>_configElement\<close> still holds the markdown editor, recorded for the type markdown.
\<close>

theorem not_found_keeps_mounted_editor:
  "u_configElement (example mount_markdown) = Some markdown_editor
   \<and> snd (session load_example dump_example (mount_markdown @ [SetConfig (Some unknown_card)]))
       = [AwaitClass ''unknown-type'']
   \<and> u_configElement (example (mount_markdown @
        [SetConfig (Some unknown_card), ClassSettles ''unknown-type'' ClassUndefined]))
       = Some markdown_editor
   \<and> u_configElType (example (mount_markdown @
        [SetConfig (Some unknown_card), ClassSettles ''unknown-type'' ClassUndefined]))
       = Some ''markdown''
   \<and> u_warning (example (mount_markdown @
        [SetConfig (Some unknown_card), ClassSettles ''unknown-type'' ClassUndefined]))
       = Some '' No visual editor available for: unknown-type''
   \<and> \<not> u_GUImode (example (mount_markdown @
        [SetConfig (Some unknown_card), ClassSettles ''unknown-type'' ClassUndefined]))"
  by (simp add: ops example_def session_def initial_def unknown_card_def markdown_card_def
      markdown_editor_def mount_markdown_def dump_example_def Let_def)

section \<open>A configuration without a type\<close>

text \<open>
  Claim C4, at an input where the code departs from it. A card without a type is
  assigned to a new element. The recorded type \<^verbatim>\<open>_configElType\<close> and the card's type
  are both \<^verbatim>\<open>undefined\<close>, so the test of line 242 fails and the check of line 244 is
  skipped; line 272 calls \<^verbatim>\<open>setConfig\<close> on \<^verbatim>\<open>undefined\<close>, and the
  \<^verbatim>\<open>TypeError\<close> is thrown again as a warning. The element ends with a warning and no
  error.
\<close>

theorem missing_type_on_new_element_is_warning:
  "u_warning (example [SetConfig (Some untyped_card)])
     = Some ('' '' @ undefined_setConfig_message)
   \<and> u_error (example [SetConfig (Some untyped_card)]) = Undefined
   \<and> fired (example [SetConfig (Some untyped_card)])
       = [GUImodeChanged False False, ConfigChanged (Some untyped_card) Undefined False]"
  by (simp add: ops example_def session_def initial_def untyped_card_def dump_example_def
      undefined_setConfig_message_def Let_def)

section \<open>Text that does not parse\<close>

text \<open>
  Claim C5, as amended. When the text assigned to \<^verbatim>\<open>yaml\<close> fails to parse with a
  non-empty message, the error becomes that message, the one notification fired is a
  change notification carrying the previous configuration, the message and the flag
  false, and nothing is left pending. The display mode and the mounted editor stay as
  they were: no mode is forced.
\<close>

theorem parse_failure_is_fatal:
  assumes "safeLoad content = Inl m" and "m \<noteq> []"
  shows "u_error (fst (set_yaml safeLoad content st)) = Message m
    \<and> hasError (fst (set_yaml safeLoad content st))
    \<and> emitted st (fst (set_yaml safeLoad content st))
        = [ConfigChanged (u_config st) (Message m) False]
    \<and> u_GUImode (fst (set_yaml safeLoad content st)) = u_GUImode st
    \<and> u_configElement (fst (set_yaml safeLoad content st)) = u_configElement st
    \<and> snd (set_yaml safeLoad content st) = Settled"
  using assms
  by (simp add: set_yaml_def yaml_def u_setConfig_def fireEvent_def hasError_def hasWarning_def
      value_def emitted_def Let_def)

theorem parse_failure_is_fatal_witness:
  "load_example ''type: bad: yaml: [''
     = Inl ''unexpected end of the stream within a flow collection''
   \<and> emitted (example mount_markdown)
        (fst (set_yaml load_example ''type: bad: yaml: ['' (example mount_markdown)))
      = [ConfigChanged (Some markdown_card)
           (Message ''unexpected end of the stream within a flow collection'') False]
   \<and> u_GUImode (fst (set_yaml load_example ''type: bad: yaml: ['' (example mount_markdown)))"
proof -
  have h: "load_example ''type: bad: yaml: [''
             = Inl ''unexpected end of the stream within a flow collection''"
    by (simp add: load_example_def)
  have c: "u_config (example mount_markdown) = Some markdown_card"
    "u_GUImode (example mount_markdown)"
    by (simp_all add: ops example_def session_def initial_def markdown_card_def
        markdown_editor_def mount_markdown_def dump_example_def Let_def)
  from parse_failure_is_fatal [of load_example "''type: bad: yaml: [''"
      "''unexpected end of the stream within a flow collection''" "example mount_markdown"] h c
  show ?thesis by simp
qed

text \<open>
  Claim C5 as stated fails. With the markdown editor mounted and the element in GUI
  mode, text that does not parse is assigned: the error is set, and the element is
  still in GUI mode.
\<close>

theorem parse_failure_keeps_gui_mode_counterexample:
  "u_GUImode (example mount_markdown)
   \<and> load_example ''type: bad: yaml: [''
       = Inl ''unexpected end of the stream within a flow collection''
   \<and> u_GUImode (example (mount_markdown @ [SetText ''type: bad: yaml: ['']))
   \<and> u_error (example (mount_markdown @ [SetText ''type: bad: yaml: ['']))
       = Message ''unexpected end of the stream within a flow collection''"
  by (simp add: ops example_def session_def initial_def markdown_card_def markdown_editor_def
      mount_markdown_def dump_example_def load_example_def Let_def)

text \<open>
  Claim C6. When the text assigned to \<^verbatim>\<open>yaml\<close> fails to parse, the error is the
  parser's message, the configuration is the one from before, and the stored text is the
  text just assigned. The parser is a parameter; its message is taken to be non-empty,
  as the messages of js-yaml are (an empty string counts as no error at line 107).
\<close>

theorem parse_failure_keeps_config:
  assumes "safeLoad content = Inl m" and "m \<noteq> []"
  shows "u_error (fst (set_yaml safeLoad content st)) = Message m
    \<and> u_config (fst (set_yaml safeLoad content st)) = u_config st
    \<and> value (fst (set_yaml safeLoad content st)) = value st
    \<and> u_yaml (fst (set_yaml safeLoad content st)) = Some content
    \<and> yaml (fst (set_yaml safeLoad content st)) = content"
  using assms
  by (simp add: set_yaml_def yaml_def u_setConfig_def fireEvent_def value_def Let_def)

theorem parse_failure_keeps_config_witness:
  "load_example ''type: bad: yaml: [''
     = Inl ''unexpected end of the stream within a flow collection''
   \<and> value (fst (set_yaml load_example ''type: bad: yaml: ['' (example mount_markdown)))
       = Some markdown_card
   \<and> yaml (fst (set_yaml load_example ''type: bad: yaml: ['' (example mount_markdown)))
       = ''type: bad: yaml: [''"
proof -
  have h: "load_example ''type: bad: yaml: [''
             = Inl ''unexpected end of the stream within a flow collection''"
    by (simp add: load_example_def)
  have c: "value (example mount_markdown) = Some markdown_card"
    by (simp add: ops example_def session_def initial_def markdown_card_def
        markdown_editor_def mount_markdown_def dump_example_def Let_def)
  from parse_failure_keeps_config [of load_example "''type: bad: yaml: [''"
      "''unexpected end of the stream within a flow collection''" "example mount_markdown"] h c
  show ?thesis by simp
qed

section \<open>One change notification for each assignment\<close>




section \<open>A lookup overtaken by a later assignment\<close>

text \<open>
  Claim C7, as amended. The function does not look at the configuration again after
  either \<^verbatim>\<open>await\<close>: when the editor for a type \<open>d\<close> arrives while the configuration
  has another type \<open>d'\<close>, lines 259 and 260 still store it, and the mounted editor and the
  recorded type are those of \<open>d\<close>, whatever was mounted before.
\<close>

theorem stale_resolution_commits:
  assumes "value st = Some c" and "ctype c = Some d'" and "d' \<noteq> d"
  shows "u_configElement (resume_element d (Element el) st) = Some el
    \<and> u_configElType (resume_element d (Element el) st) = Some d
    \<and> value (resume_element d (Element el) st) = Some c"
  using assms by (simp add: resume_element_def forward_config_keeps value_def)

theorem stale_resolution_commits_witness:
  "value (example stale_race) = Some glance_card \<and> ctype glance_card = Some ''glance''
   \<and> ''glance'' \<noteq> ''markdown''
   \<and> u_configElement (resume_element ''markdown'' (Element markdown_editor) (example stale_race))
        = Some markdown_editor
   \<and> u_configElType (resume_element ''markdown'' (Element markdown_editor) (example stale_race))
        = Some ''markdown''"
proof -
  have h: "value (example stale_race) = Some glance_card" "ctype glance_card = Some ''glance''"
    "''glance'' \<noteq> ''markdown''"
    by (simp_all add: ops example_def session_def initial_def markdown_card_def glance_card_def
        glance_editor_def dump_example_def stale_race_def Let_def)
  from stale_resolution_commits
    [of "example stale_race" glance_card "''glance''" "''markdown''" markdown_editor] h
  show ?thesis by simp
qed

text \<open>
  Claim C7 as stated fails. A markdown card is assigned and then a glance card, before
  the lookup for markdown has resolved. The lookup for glance finishes first and mounts
  the glance editor. When the editor for markdown arrives, it replaces the glance editor
  and the recorded type becomes markdown, while the configuration is the glance card.
\<close>

theorem stale_resolution_counterexample:
  "snd (session load_example dump_example stale_race) = [AwaitElement ''markdown'']
   \<and> value (example stale_race) = Some glance_card
   \<and> u_configElement (example stale_race) = Some glance_editor
   \<and> u_configElType (example stale_race) = Some ''glance''
   \<and> u_configElement
        (example (stale_race @ [ElementSettles ''markdown'' (Element markdown_editor)]))
       = Some markdown_editor
   \<and> u_configElType
        (example (stale_race @ [ElementSettles ''markdown'' (Element markdown_editor)]))
       = Some ''markdown''
   \<and> value (example (stale_race @ [ElementSettles ''markdown'' (Element markdown_editor)]))
       = Some glance_card"
  by (simp add: ops example_def session_def initial_def markdown_card_def glance_card_def
      glance_editor_def markdown_editor_def dump_example_def stale_race_def Let_def)

section \<open>The guard of the setter value\<close>

text \<open>
  Claim C8, as amended. Assigning to \<^verbatim>\<open>value\<close> a configuration object deeply equal to
  the one the element holds is a no-op: the setter returns, the state is the same,
  nothing is fired, nothing is left pending and \<^verbatim>\<open>_updateConfigElement\<close> is not
  called. When a configuration object that the element does not hold and that
  \<^verbatim>\<open>safeDump\<close> prints is assigned twice in a row, the second assignment is that no-op,
  and the two together call \<^verbatim>\<open>_updateConfigElement\<close> once and fire one change
  notification.
\<close>

theorem set_value_equal_is_noop:
  "(u_config st = Some c \<longrightarrow> set_value safeDump (Some c) st = (st, Returns Settled))
   \<and> (u_config st \<noteq> Some c \<and> safeDump (Some c) = Inr y \<longrightarrow>
        set_value safeDump (Some c) (fst (set_value safeDump (Some c) st))
          = (fst (set_value safeDump (Some c) st), Returns Settled)
        \<and> reconciliations
            (fst (set_value safeDump (Some c) (fst (set_value safeDump (Some c) st))))
          = Suc (reconciliations st)
        \<and> length (filter config_changed
            (emitted st
               (fst (set_value safeDump (Some c) (fst (set_value safeDump (Some c) st)))))) = 1)"
proof (intro conjI impI)
  assume "u_config st = Some c"
  then show "set_value safeDump (Some c) st = (st, Returns Settled)"
    by (simp add: set_value_def deepEqual_def)
next
  assume h: "u_config st \<noteq> Some c \<and> safeDump (Some c) = Inr y"
  let ?b = "st\<lparr>u_config := Some c, u_yaml := Some y, u_error := Undefined\<rparr>"
  from h have g: "u_config st = None \<or> \<not> deepEqual (Some c) (u_config st)"
    by (auto simp add: deepEqual_def)
  from h have v: "fst (set_value safeDump (Some c) st) = fst (u_setConfig ?b)"
    using set_value_unfold [of st "Some c" safeDump y] g by simp
  have k: "u_config (fst (set_value safeDump (Some c) st)) = Some c"
    unfolding v by (simp add: setConfig_keeps)
  from k show s: "set_value safeDump (Some c) (fst (set_value safeDump (Some c) st))
          = (fst (set_value safeDump (Some c) st), Returns Settled)"
    by (simp add: set_value_def deepEqual_def)
  have fb: "fired st = fired ?b" by simp
  show "reconciliations
            (fst (set_value safeDump (Some c) (fst (set_value safeDump (Some c) st))))
          = Suc (reconciliations st)"
    unfolding s fst_conv unfolding v by (simp add: setConfig_reconciles)
  show "length (filter config_changed
            (emitted st
               (fst (set_value safeDump (Some c) (fst (set_value safeDump (Some c) st)))))) = 1"
    unfolding s fst_conv unfolding v by (simp add: emitted_setConfig(1) [OF fb])
qed

theorem set_value_equal_is_noop_witness:
  "u_config (example mount_markdown) = Some markdown_card
   \<and> set_value dump_example (Some markdown_card) (example mount_markdown)
       = (example mount_markdown, Returns Settled)
   \<and> u_config (initial :: string state) \<noteq> Some markdown_card
   \<and> dump_example (Some markdown_card) = Inr (''type: markdown'' @ [CHR 0x0A] @ ''content: hi'')
   \<and> reconciliations (fst (set_value dump_example (Some markdown_card)
          (fst (set_value dump_example (Some markdown_card) initial)))) = 1
   \<and> length (filter config_changed
       (emitted initial (fst (set_value dump_example (Some markdown_card)
          (fst (set_value dump_example (Some markdown_card) initial)))))) = 1"
proof -
  have h: "u_config (example mount_markdown) = Some markdown_card"
    "u_config (initial :: string state) \<noteq> Some markdown_card"
    "dump_example (Some markdown_card) = Inr (''type: markdown'' @ [CHR 0x0A] @ ''content: hi'')"
    "reconciliations (initial :: string state) = 0"
    by (simp_all add: ops example_def session_def initial_def markdown_card_def
        markdown_editor_def mount_markdown_def dump_example_def Let_def)
  from set_value_equal_is_noop [of "example mount_markdown" markdown_card dump_example] h(1)
  have 1: "set_value dump_example (Some markdown_card) (example mount_markdown)
       = (example mount_markdown, Returns Settled)" by blast
  from set_value_equal_is_noop [of "initial :: string state" markdown_card dump_example
      "''type: markdown'' @ [CHR 0x0A] @ ''content: hi''"] h(2,3)
  have 2: "reconciliations (fst (set_value dump_example (Some markdown_card)
          (fst (set_value dump_example (Some markdown_card) initial))))
        = Suc (reconciliations (initial :: string state))"
    "length (filter config_changed
       (emitted initial (fst (set_value dump_example (Some markdown_card)
          (fst (set_value dump_example (Some markdown_card) initial)))))) = 1"
    by blast+
  from 1 2 h show ?thesis by simp
qed

text \<open>
  Claim C8 as stated fails. On a new element the configuration is \<^verbatim>\<open>undefined\<close>;
  assigning \<^verbatim>\<open>undefined\<close>, which is deeply equal to it, is not stopped by the guard:
  \<^verbatim>\<open>safeDump\<close> is called and throws. And a card with an undefined content, assigned
  twice to a new element, reaches line 100 the first time, where the printer throws,
  and is stopped by the guard the second time: the two assignments together never call
  \<^verbatim>\<open>_updateConfigElement\<close> and fire no change notification.
\<close>

theorem set_value_equal_counterexample:
  "deepEqual None (u_config (initial :: string state))
   \<and> snd (set_value dump_example None initial)
       = Throws ''unacceptable kind of an object to dump [object Undefined]''
   \<and> snd (set_value dump_optional (Some unprintable_card) initial)
       = Throws ''unacceptable kind of an object to dump [object Undefined]''
   \<and> set_value dump_optional (Some unprintable_card)
        (fst (set_value dump_optional (Some unprintable_card) initial))
       = (fst (set_value dump_optional (Some unprintable_card) initial), Returns Settled)
   \<and> reconciliations (fst (set_value dump_optional (Some unprintable_card)
        (fst (set_value dump_optional (Some unprintable_card) initial)))) = 0
   \<and> fired (fst (set_value dump_optional (Some unprintable_card)
        (fst (set_value dump_optional (Some unprintable_card) initial)))) = []"
  by (simp add: set_value_def deepEqual_def initial_def dump_example_def dump_optional_def
      unprintable_card_def Let_def)

text \<open>
  Claim C10, as amended. The guard of line 97 needs a current configuration. While the
  element holds none, no assignment to \<^verbatim>\<open>value\<close> is a no-op, that of \<^verbatim>\<open>undefined\<close>
  neither. When \<^verbatim>\<open>safeDump\<close> returns, the assigned value is stored, the text is
  derived from it and one change notification is fired. When \<^verbatim>\<open>safeDump\<close> throws,
  the assigned value is stored and the setter throws: the text stays, and nothing is
  fired.
\<close>

theorem set_value_on_undefined_config:
  assumes "u_config st = None"
  shows "set_value safeDump config st \<noteq> (st, Returns Settled)
    \<and> u_config (fst (set_value safeDump config st)) = config
    \<and> (safeDump config = Inr y \<longrightarrow>
         u_yaml (fst (set_value safeDump config st)) = Some y
         \<and> length (filter config_changed (emitted st (fst (set_value safeDump config st)))) = 1)
    \<and> (safeDump config = Inl m \<longrightarrow>
         set_value safeDump config st = (st\<lparr>u_config := config\<rparr>, Throws m))"
proof -
  from assms have g: "u_config st = None \<or> \<not> deepEqual config (u_config st)" by simp
  have a: "safeDump config = Inl m \<Longrightarrow>
      set_value safeDump config st = (st\<lparr>u_config := config\<rparr>, Throws m)" for m
    using set_value_throws [of st config safeDump m] g by simp
  have b: "u_yaml (fst (set_value safeDump config st)) = Some y
      \<and> u_config (fst (set_value safeDump config st)) = config
      \<and> length (filter config_changed (emitted st (fst (set_value safeDump config st)))) = 1"
    if r: "safeDump config = Inr y" for y
  proof -
    let ?b = "st\<lparr>u_config := config, u_yaml := Some y, u_error := Undefined\<rparr>"
    have fb: "fired st = fired ?b" by simp
    show ?thesis
      using set_value_unfold [of st config safeDump y] g r
      by (simp add: setConfig_keeps emitted_setConfig(1) [OF fb])
  qed
  have c: "u_config (fst (set_value safeDump config st)) = config"
  proof (cases "safeDump config")
    case (Inl m)
    from a [OF Inl] show ?thesis by simp
  next
    case (Inr y)
    from b [OF Inr] show ?thesis by simp
  qed
  have d: "set_value safeDump config st \<noteq> (st, Returns Settled)"
  proof (cases "safeDump config")
    case (Inl m)
    from a [OF Inl] show ?thesis by simp
  next
    case (Inr y)
    from b [OF Inr]
    have "length (filter config_changed (emitted st (fst (set_value safeDump config st)))) = 1"
      by simp
    then have "fst (set_value safeDump config st) \<noteq> st"
      by (auto simp add: emitted_def)
    then show ?thesis by auto
  qed
  from a b c d show ?thesis by blast
qed

theorem set_value_on_undefined_config_witness:
  "u_config (initial :: string state) = None
   \<and> dump_example (Some markdown_card) = Inr (''type: markdown'' @ [CHR 0x0A] @ ''content: hi'')
   \<and> u_yaml (fst (set_value dump_example (Some markdown_card) initial))
       = Some (''type: markdown'' @ [CHR 0x0A] @ ''content: hi'')
   \<and> length (filter config_changed
        (emitted initial (fst (set_value dump_example (Some markdown_card) initial)))) = 1
   \<and> dump_example None = Inl ''unacceptable kind of an object to dump [object Undefined]''
   \<and> set_value dump_example None (initial :: string state)
       = (initial\<lparr>u_config := None\<rparr>,
          Throws ''unacceptable kind of an object to dump [object Undefined]'')"
proof -
  have h: "u_config (initial :: string state) = None" by (simp add: initial_def)
  have d: "dump_example (Some markdown_card)
             = Inr (''type: markdown'' @ [CHR 0x0A] @ ''content: hi'')"
    "dump_example None = Inl ''unacceptable kind of an object to dump [object Undefined]''"
    by (simp_all add: dump_example_def markdown_card_def)
  from set_value_on_undefined_config [OF h, of dump_example "Some markdown_card"
      "''type: markdown'' @ [CHR 0x0A] @ ''content: hi''"] d(1)
  have 1: "u_yaml (fst (set_value dump_example (Some markdown_card) initial))
       = Some (''type: markdown'' @ [CHR 0x0A] @ ''content: hi'')"
    "length (filter config_changed
        (emitted initial (fst (set_value dump_example (Some markdown_card) initial)))) = 1"
    by blast+
  from set_value_on_undefined_config [OF h, of dump_example None _
      "''unacceptable kind of an object to dump [object Undefined]''"] d(2)
  have 2: "set_value dump_example None (initial :: string state)
       = (initial\<lparr>u_config := None\<rparr>,
          Throws ''unacceptable kind of an object to dump [object Undefined]'')"
    by blast
  from 1 2 h d show ?thesis by simp
qed

text \<open>
  Claim C10 as stated fails. On a new element \<^verbatim>\<open>undefined\<close> is assigned; the printer
  throws, as js-yaml does: no text is derived and no change notification is fired.
\<close>

theorem set_value_undefined_counterexample:
  "u_config (initial :: string state) = None
   \<and> snd (set_value dump_example None initial)
       = Throws ''unacceptable kind of an object to dump [object Undefined]''
   \<and> u_yaml (fst (set_value dump_example None initial)) = None
   \<and> fired (fst (set_value dump_example None initial)) = []"
  by (simp add: set_value_def initial_def dump_example_def Let_def)

section \<open>The error field of a change notification\<close>

lemma setConfig_error_is_string:
  "error_is_string (ConfigChanged (value (fst (u_setConfig st))) (u_error (fst (u_setConfig st))) g)
   \<or> (\<exists>m. u_error st = ErrorObject m)"
  by (cases "u_error st") (simp_all add: u_setConfig_def fireEvent_def split: prod.splits)

lemma setConfig_preserves:
  assumes "list_all error_is_string (fired st)" and "\<forall>m. u_error st \<noteq> ErrorObject m"
  shows "list_all error_is_string (fired (fst (u_setConfig st)))"
proof -
  from fired_setConfig [of st] obtain gs where
    g: "fired (fst (u_setConfig st)) = fired st @ gs @ [notification_of (fst (u_setConfig st))]"
    and n: "filter config_changed gs = []" by blast
  have "list_all error_is_string gs"
    using n by (induction gs) (auto split: if_splits elim: config_changed.elims)
  moreover from setConfig_error_is_string [of st] assms(2)
  have "error_is_string (notification_of (fst (u_setConfig st)))"
    unfolding notification_of_def by blast
  ultimately show ?thesis using assms(1) by (subst g) simp
qed

lemma perform_preserves:
  assumes "list_all error_is_string (fired (fst s))"
  shows "list_all error_is_string (fired (fst (perform safeLoad safeDump a s)))"
proof (cases s)
  case (Pair st ps)
  with assms have i: "list_all error_is_string (fired st)" by simp
  show ?thesis
  proof (cases a)
    case (SetText content)
    let ?a = "case safeLoad content of
                Inr c \<Rightarrow> st\<lparr>u_yaml := Some content, u_config := c, u_error := Undefined\<rparr>
              | Inl m \<Rightarrow> st\<lparr>u_yaml := Some content, u_error := Message m\<rparr>"
    have "list_all error_is_string (fired ?a)" "\<forall>m. u_error ?a \<noteq> ErrorObject m"
      using i by (simp_all split: sum.splits)
    then have "list_all error_is_string (fired (fst (u_setConfig ?a)))"
      by (rule setConfig_preserves)
    with Pair SetText set_yaml_unfold [of safeLoad content st] show ?thesis
      by (auto split: prod.splits)
  next
    case (SetConfig config)
    have "list_all error_is_string (fired (fst (set_value safeDump config st)))"
    proof (cases "u_config st = None \<or> \<not> deepEqual config (u_config st)")
      case False
      with i show ?thesis by (simp add: set_value_def)
    next
      case guard: True
      show ?thesis
      proof (cases "safeDump config")
        case (Inl m)
        from set_value_throws [of st config safeDump m] guard Inl i show ?thesis by simp
      next
        case (Inr y)
        let ?b = "st\<lparr>u_config := config, u_yaml := Some y, u_error := Undefined\<rparr>"
        have "list_all error_is_string (fired ?b)" "\<forall>m. u_error ?b \<noteq> ErrorObject m"
          using i by simp_all
        then have "list_all error_is_string (fired (fst (u_setConfig ?b)))"
          by (rule setConfig_preserves)
        with set_value_unfold [of st config safeDump y] guard Inr show ?thesis by simp
      qed
    qed
    with Pair SetConfig show ?thesis by (auto split: prod.splits)
  next
    case ToggleMode
    with Pair i show ?thesis by (simp add: toggleMode_def fired_set_GUImode)
  next
    case (ClassSettles t r)
    from fired_resume_class [of t r st] i
    have "list_all error_is_string (fired (fst (resume_class t r st)))" by auto
    with Pair ClassSettles i show ?thesis by (auto split: prod.splits)
  next
    case (ElementSettles t r)
    from fired_resume_element [of t r st] i
    have "list_all error_is_string (fired (resume_element t r st))" by auto
    with Pair ElementSettles i show ?thesis by simp
  qed
qed

text \<open>
  Claim C9. In every session, whatever the parser, the printer and the order of the
  steps, each change notification fired carries in its error field either
  \<^verbatim>\<open>undefined\<close> or a string. The \<^verbatim>\<open>Error\<close> object that line 280 may store in
  \<^verbatim>\<open>_error\<close> never reaches a notification: both setters overwrite \<^verbatim>\<open>_error\<close> before
  they call \<^verbatim>\<open>_setConfig\<close>, and line 110 clears what the call of line 109 has stored.
\<close>

theorem change_notification_error_is_string:
  "list_all error_is_string (fired (fst (session safeLoad safeDump acts)))"
proof (induction acts rule: rev_induct)
  case Nil
  show ?case by (simp add: session_def initial_def)
next
  case (snoc a acts)
  from perform_preserves [OF snoc.IH, of safeLoad safeDump a]
  show ?case by (simp add: session_def)
qed

theorem change_notification_error_is_string_witness:
  "fired (example (mount_markdown @ [SetConfig (Some untyped_card), SetText ''type: bad: yaml: ['']))
     = [ConfigChanged (Some markdown_card) Undefined True,
        GUImodeChanged False False,
        ConfigChanged (Some untyped_card) Undefined True,
        ConfigChanged (Some untyped_card)
          (Message ''unexpected end of the stream within a flow collection'') False]
   \<and> list_all error_is_string
        (fired (example
           (mount_markdown @ [SetConfig (Some untyped_card), SetText ''type: bad: yaml: [''])))"
proof -
  have f: "fired (example
      (mount_markdown @ [SetConfig (Some untyped_card), SetText ''type: bad: yaml: ['']))
     = [ConfigChanged (Some markdown_card) Undefined True,
        GUImodeChanged False False,
        ConfigChanged (Some untyped_card) Undefined True,
        ConfigChanged (Some untyped_card)
          (Message ''unexpected end of the stream within a flow collection'') False]"
    by (simp add: ops example_def session_def initial_def markdown_card_def untyped_card_def
        markdown_editor_def mount_markdown_def dump_example_def load_example_def Let_def)
  from change_notification_error_is_string [of load_example dump_example
      "mount_markdown @ [SetConfig (Some untyped_card), SetText ''type: bad: yaml: ['']"] f
  show ?thesis by (simp add: example_def)
qed

end
